theory Spec2Isabelle
  imports Complex_Main
begin

section \<open>Python values and exceptions\<close>

text \<open>
  The thresholds and samples of a scaling mode are Python floats. Their order is what the
  modes use, so a float is a real number, one of the two infinities, or NaN; every
  comparison with NaN is false, as in Python. A finite float \<open>Fin r\<close> stands for the
  binary64 number \<open>r\<close>; the sign of a zero is not kept, since no comparison, ceiling or
  floor below depends on it. The product and the quotient that \<open>scale_app\<close> computes
  are rounded as binary64 arithmetic rounds them (section on float arithmetic). The
  utilization and the average of the memory mode are kept as exact real numbers.
\<close>

datatype pyfloat = Fin real | PosInf | NegInf | NaN

fun py_lt :: "pyfloat \<Rightarrow> pyfloat \<Rightarrow> bool" where
  "py_lt NaN _ = False"
| "py_lt _ NaN = False"
| "py_lt (Fin a) (Fin b) = (a < b)"
| "py_lt (Fin _) PosInf = True"
| "py_lt (Fin _) NegInf = False"
| "py_lt PosInf _ = False"
| "py_lt NegInf NegInf = False"
| "py_lt NegInf _ = True"

definition py_gt :: "pyfloat \<Rightarrow> pyfloat \<Rightarrow> bool" where
  "py_gt a b = py_lt b a"

definition py_eq :: "pyfloat \<Rightarrow> pyfloat \<Rightarrow> bool" where
  "py_eq a b = (a \<noteq> NaN \<and> a = b)"

definition py_le :: "pyfloat \<Rightarrow> pyfloat \<Rightarrow> bool" where
  "py_le a b = (py_lt a b \<or> py_eq a b)"

text \<open>
  Exceptions are values. \<open>ValueError\<close>, \<open>ZeroDivisionError\<close>, \<open>KeyError\<close>,
  \<open>IndexError\<close> and \<open>OverflowError\<close> are the ones the source raises itself, by a
  \<open>raise\<close>, a division, a dictionary lookup, a list index, or a conversion between
  integers and floats. \<open>OtherException\<close> is any other subclass of
  \<open>Exception\<close> that a collaborator (API client, agent statistics, Marathon application)
  may raise; \<open>BaseExc\<close> is a \<open>BaseException\<close> that is no \<open>Exception\<close>
  (\<open>KeyboardInterrupt\<close>, \<open>SystemExit\<close>), which \<open>except Exception\<close> lets through.
\<close>

datatype exn =
    ValueError string
  | ZeroDivisionError
  | KeyError string
  | IndexError
  | OverflowError string
  | OtherException string
  | BaseExc string

fun is_Exception :: "exn \<Rightarrow> bool" where
  "is_Exception (BaseExc _) = False"
| "is_Exception _ = True"

section \<open>Float arithmetic\<close>

text \<open>
  Python's floats are IEEE 754 binary64 numbers: 53 bits of mantissa, exponents from
  -1022 to 1023, subnormal numbers below, results rounded to the nearest number and, at
  a tie, to the one with an even mantissa; a result too large becomes an infinity.

  \<open>bit_length n\<close> is the number of binary digits of a positive integer, as Python's
  \<open>int.bit_length\<close>; \<open>pow2 k\<close> is 2 to the power of the integer \<open>k\<close>; \<open>binade x\<close> is
  the exponent \<open>e\<close> with \<open>pow2 e \<le> x < pow2 (e + 1)\<close> of a positive \<open>x\<close>.
\<close>

function bit_length :: "int \<Rightarrow> int" where
  "bit_length n = (if n \<le> 0 then 0 else 1 + bit_length (n div 2))"
  by pat_completeness auto
termination
  by (relation "measure nat") auto

declare bit_length.simps [simp del]

definition pow2 :: "int \<Rightarrow> real" where
  "pow2 k = (if 0 \<le> k then 2 ^ nat k else 1 / 2 ^ nat (- k))"

definition binade :: "real \<Rightarrow> int" where
  "binade x = (if 1 \<le> x then bit_length \<lfloor>x\<rfloor> - 1 else - bit_length (\<lceil>1 / x\<rceil> - 1))"

definition round_half_even :: "real \<Rightarrow> int" where
  "round_half_even x =
     (let f = \<lfloor>x\<rfloor>; d = x - real_of_int f
      in if d < 1 / 2 then f else if 1 / 2 < d then f + 1 else if even f then f else f + 1)"

text \<open>
  The binary64 number nearest to a real number: the mantissa is the number rounded to a
  multiple of the spacing \<open>q\<close> of its binade, which is \<open>pow2 (- 1074)\<close> for the
  subnormal numbers; a magnitude of \<open>pow2 1024\<close> or more after rounding is an infinity.
\<close>

definition round_double :: "real \<Rightarrow> pyfloat" where
  "round_double x =
     (if x = 0 then Fin 0
      else
        (let e = max (binade \<bar>x\<bar>) (- 1022);
             q = pow2 (e - 52);
             n = round_half_even (x / q)
         in if pow2 1024 \<le> \<bar>real_of_int n\<bar> * q then (if 0 < x then PosInf else NegInf)
            else Fin (real_of_int n * q)))"

text \<open>
  The conversion of an integer operand to a float, which every mixed operation starts
  with: it rounds, and raises \<open>OverflowError\<close> where the rounded value would be infinite.
\<close>

definition int_to_float :: "int \<Rightarrow> exn + pyfloat" where
  "int_to_float n =
     (case round_double (real_of_int n) of
        Fin r \<Rightarrow> Inr (Fin r)
      | _ \<Rightarrow> Inl (OverflowError ''int too large to convert to float''))"

text \<open>The product of two floats; it never raises.\<close>

fun float_mul :: "pyfloat \<Rightarrow> pyfloat \<Rightarrow> pyfloat" where
  "float_mul NaN _ = NaN"
| "float_mul _ NaN = NaN"
| "float_mul (Fin a) (Fin b) = round_double (a * b)"
| "float_mul (Fin a) PosInf = (if a = 0 then NaN else if 0 < a then PosInf else NegInf)"
| "float_mul (Fin a) NegInf = (if a = 0 then NaN else if 0 < a then NegInf else PosInf)"
| "float_mul PosInf (Fin b) = (if b = 0 then NaN else if 0 < b then PosInf else NegInf)"
| "float_mul NegInf (Fin b) = (if b = 0 then NaN else if 0 < b then NegInf else PosInf)"
| "float_mul PosInf PosInf = PosInf"
| "float_mul PosInf NegInf = NegInf"
| "float_mul NegInf PosInf = NegInf"
| "float_mul NegInf NegInf = PosInf"

text \<open>
  The quotient of two floats. Python tests the divisor first and raises
  \<open>ZeroDivisionError\<close> when it is zero, whatever the dividend is.
\<close>

fun float_div :: "pyfloat \<Rightarrow> pyfloat \<Rightarrow> pyfloat" where
  "float_div NaN _ = NaN"
| "float_div _ NaN = NaN"
| "float_div (Fin a) (Fin b) = round_double (a / b)"
| "float_div (Fin a) PosInf = Fin 0"
| "float_div (Fin a) NegInf = Fin 0"
| "float_div PosInf (Fin b) = (if 0 < b then PosInf else NegInf)"
| "float_div NegInf (Fin b) = (if 0 < b then NegInf else PosInf)"
| "float_div PosInf PosInf = NaN"
| "float_div PosInf NegInf = NaN"
| "float_div NegInf PosInf = NaN"
| "float_div NegInf NegInf = NaN"

definition float_truediv :: "pyfloat \<Rightarrow> pyfloat \<Rightarrow> exn + pyfloat" where
  "float_truediv a b = (if b = Fin 0 then Inl ZeroDivisionError else Inr (float_div a b))"

text \<open>\<open>n * x\<close> and \<open>n / x\<close> for an integer \<open>n\<close> and a float \<open>x\<close>.\<close>

definition int_mul_float :: "int \<Rightarrow> pyfloat \<Rightarrow> exn + pyfloat" where
  "int_mul_float n x =
     (case int_to_float n of Inl e \<Rightarrow> Inl e | Inr a \<Rightarrow> Inr (float_mul a x))"

definition int_truediv_float :: "int \<Rightarrow> pyfloat \<Rightarrow> exn + pyfloat" where
  "int_truediv_float n x =
     (case int_to_float n of Inl e \<Rightarrow> Inl e | Inr a \<Rightarrow> float_truediv a x)"

text \<open>
  \<open>math.ceil\<close> and \<open>math.floor\<close> of a float return an integer; they raise
  \<open>OverflowError\<close> on an infinity and \<open>ValueError\<close> on NaN.
\<close>

fun math_ceil :: "pyfloat \<Rightarrow> exn + int" where
  "math_ceil (Fin r) = Inr \<lceil>r\<rceil>"
| "math_ceil NaN = Inl (ValueError ''cannot convert float NaN to integer'')"
| "math_ceil _ = Inl (OverflowError ''cannot convert float infinity to integer'')"

fun math_floor :: "pyfloat \<Rightarrow> exn + int" where
  "math_floor (Fin r) = Inr \<lfloor>r\<rfloor>"
| "math_floor NaN = Inl (ValueError ''cannot convert float NaN to integer'')"
| "math_floor _ = Inl (OverflowError ''cannot convert float infinity to integer'')"

section \<open>autoscaler/modes/abstractmode.py\<close>

text \<open>
  A mode keeps its two thresholds; its other fields (\<open>api_client\<close>, \<open>agent_stats\<close>,
  \<open>app\<close>) are the collaborators, which the record \<open>world\<close> below stands for.
\<close>

record mode =
  min_range :: pyfloat
  max_range :: pyfloat

text \<open>
  The \<open>dimension\<close> argument is \<open>None\<close> or a dictionary; the entry under a key is a list
  of floats or a single float.
\<close>

datatype dimval = Scalar pyfloat | ListVal "pyfloat list"

text \<open>
  \<open>dimension[k][0]\<close> if \<open>dimension[k]\<close> is a list, else \<open>dimension[k]\<close>: a missing key
  raises \<open>KeyError\<close>, an empty list \<open>IndexError\<close>.
\<close>

definition dimension_bound :: "(string \<rightharpoonup> dimval) \<Rightarrow> string \<Rightarrow> exn + pyfloat" where
  "dimension_bound dimension k =
     (case dimension k of
        None \<Rightarrow> Inl (KeyError k)
      | Some (ListVal []) \<Rightarrow> Inl IndexError
      | Some (ListVal (x # _)) \<Rightarrow> Inr x
      | Some (Scalar x) \<Rightarrow> Inr x)"

definition AbstractMode_init :: "(string \<rightharpoonup> dimval) option \<Rightarrow> exn + mode" where
  "AbstractMode_init dimension =
     (case dimension of
        None \<Rightarrow> Inr \<lparr>min_range = Fin 0, max_range = Fin 100\<rparr>
      | Some d \<Rightarrow>
          (case dimension_bound d ''min'' of
             Inl e \<Rightarrow> Inl e
           | Inr lo \<Rightarrow>
               (case dimension_bound d ''max'' of
                  Inl e \<Rightarrow> Inl e
                | Inr hi \<Rightarrow> Inr \<lparr>min_range = lo, max_range = hi\<rparr>)))"

definition AbstractMode_scale_direction :: "mode \<Rightarrow> pyfloat \<Rightarrow> int" where
  "AbstractMode_scale_direction self v =
     (if py_gt v (max_range self) then 1
      else if py_lt v (min_range self) then - 1
      else 0)"

section \<open>The collaborators\<close>

text \<open>
  The statistics of a task, as far as the memory mode reads them: the two integers under
  \<open>mem_rss_bytes\<close> and \<open>mem_limit_bytes\<close>.
\<close>

record task_stats =
  mem_rss_bytes :: int
  mem_limit_bytes :: int

text \<open>
  What the collaborators answer during one cycle. Each call returns a value or raises.
  \<open>get_app_details\<close> is the dictionary from task to agent in iteration order
  (\<open>None\<close> and the empty dictionary are both falsy and are the empty list here);
  \<open>get_task_stats\<close> takes the agent, then the task; \<open>dcos_rest\<close> is the PUT of a
  target instance count.
\<close>

record world =
  app_name :: string
  agent_stats_reset :: "exn option"
  app_exists :: "exn + bool"
  get_app_details :: "exn + (string \<times> string) list"
  get_task_stats :: "string \<Rightarrow> string \<Rightarrow> exn + task_stats option"
  get_app_instances :: "exn + int"
  dcos_rest :: "int \<Rightarrow> exn option"

section \<open>autoscaler/modes/scalemem.py\<close>

definition zero_limit_message :: "string \<Rightarrow> string \<Rightarrow> string" where
  "zero_limit_message task agent =
     ''mem_limit_bytes for task '' @ task @ '' agent '' @ agent @ '' is 0''"

definition get_mem_usage :: "world \<Rightarrow> string \<Rightarrow> string \<Rightarrow> exn + real" where
  "get_mem_usage w task agent =
     (case get_task_stats w agent task of
        Inl e \<Rightarrow> Inl e
      | Inr (Some st) \<Rightarrow>
          if mem_limit_bytes st = 0
          then Inl (ValueError (zero_limit_message task agent))
          else Inr (100 * (real_of_int (mem_rss_bytes st) / real_of_int (mem_limit_bytes st)))
      | Inr None \<Rightarrow> Inr 0)"

text \<open>
  The \<open>for\<close> loop of \<open>get_value\<close>: one utilization per task, appended to
  \<open>app_mem_values\<close>; the first exception ends it.
\<close>

fun app_mem_values :: "world \<Rightarrow> (string \<times> string) list \<Rightarrow> real list \<Rightarrow> exn + real list" where
  "app_mem_values w [] acc = Inr acc"
| "app_mem_values w ((task, agent) # rest) acc =
     (case get_mem_usage w task agent of
        Inl e \<Rightarrow> Inl e
      | Inr mem_utilization \<Rightarrow> app_mem_values w rest (acc @ [mem_utilization]))"

text \<open>Python's \<open>/\<close> on numbers raises on a zero divisor.\<close>

definition py_truediv :: "real \<Rightarrow> real \<Rightarrow> exn + real" where
  "py_truediv a b = (if b = 0 then Inl ZeroDivisionError else Inr (a / b))"

definition get_value :: "world \<Rightarrow> exn + real" where
  "get_value w =
     (case get_app_details w of
        Inl e \<Rightarrow> Inl e
      | Inr app_task_dict \<Rightarrow>
          if app_task_dict = []
          then Inl (ValueError (''No marathon app task data found for app '' @ app_name w))
          else
            (case app_mem_values w app_task_dict [] of
               Inl e \<Rightarrow> Inl e
             | Inr vs \<Rightarrow> py_truediv (sum_list vs) (real (length vs))))"

definition ScaleByMemory_scale_direction :: "mode \<Rightarrow> world \<Rightarrow> exn + int" where
  "ScaleByMemory_scale_direction self w =
     (case get_value w of
        Inl e \<Rightarrow> Inl e
      | Inr v \<Rightarrow> Inr (AbstractMode_scale_direction self (Fin v)))"

section \<open>marathon_autoscaler.py\<close>

text \<open>
  The fields of \<open>Autoscaler\<close> that the control loop reads and writes. The effects that
  can be observed from outside are events: a call of \<open>scale_app\<close>, the PUT of a target
  count, a sleep. Logging is left out.
\<close>

record autoscaler =
  scale_up :: int
  cool_down :: int
  autoscale_multiplier :: pyfloat
  min_instances :: int
  max_instances :: int
  cool_down_factor :: int
  scale_up_factor :: int
  interval :: int

datatype event = ScaleApp bool | Put int | Sleep int

text \<open>
  The target of \<open>scale_app\<close> for \<open>app_instances\<close> running instances:
  \<open>math.ceil(app_instances * self.autoscale_multiplier)\<close> lowered to \<open>max_instances\<close>,
  or \<open>math.floor(app_instances / self.autoscale_multiplier)\<close> raised to
  \<open>min_instances\<close>. The float operations and the two conversions raise as Python's do.
\<close>

definition target_instances :: "autoscaler \<Rightarrow> int \<Rightarrow> bool \<Rightarrow> exn + int" where
  "target_instances self app_instances is_up =
     (if is_up then
        (case int_mul_float app_instances (autoscale_multiplier self) of
           Inl e \<Rightarrow> Inl e
         | Inr p \<Rightarrow>
             (case math_ceil p of
                Inl e \<Rightarrow> Inl e
              | Inr t \<Rightarrow> Inr (if t > max_instances self then max_instances self else t)))
      else
        (case int_truediv_float app_instances (autoscale_multiplier self) of
           Inl e \<Rightarrow> Inl e
         | Inr q \<Rightarrow>
             (case math_floor q of
                Inl e \<Rightarrow> Inl e
              | Inr t \<Rightarrow> Inr (if t < min_instances self then min_instances self else t))))"

definition scale_app :: "world \<Rightarrow> autoscaler \<Rightarrow> bool \<Rightarrow> event list \<times> exn option" where
  "scale_app w self is_up =
     (case get_app_instances w of
        Inl e \<Rightarrow> ([], Some e)
      | Inr app_instances \<Rightarrow>
          (case target_instances self app_instances is_up of
             Inl e \<Rightarrow> ([], Some e)
           | Inr t \<Rightarrow>
               if app_instances \<noteq> t then ([Put t], dcos_rest w t) else ([], None)))"

text \<open>
  \<open>autoscale\<close> returns the object after the call, the events of the call and the
  exception that leaves it, if any. An exception of \<open>scale_app\<close> leaves \<open>autoscale\<close>
  at once, before the assignment that follows the call.
\<close>

definition autoscale :: "world \<Rightarrow> autoscaler \<Rightarrow> int \<Rightarrow> autoscaler \<times> event list \<times> exn option" where
  "autoscale w self direction =
     (if direction = 1 then
        (let s1 = self\<lparr>scale_up := scale_up self + 1, cool_down := 0\<rparr>
         in if scale_up s1 \<ge> scale_up_factor s1 then
              (case scale_app w s1 True of
                 (ev, Some e) \<Rightarrow> (s1, ScaleApp True # ev, Some e)
               | (ev, None) \<Rightarrow> (s1\<lparr>scale_up := 0\<rparr>, ScaleApp True # ev, None))
            else (s1, [], None))
      else if direction = - 1 then
        (let s1 = self\<lparr>cool_down := cool_down self + 1, scale_up := 0\<rparr>
         in if cool_down s1 \<ge> cool_down_factor s1 then
              (case scale_app w s1 False of
                 (ev, Some e) \<Rightarrow> (s1, ScaleApp False # ev, Some e)
               | (ev, None) \<Rightarrow> (s1\<lparr>cool_down := 0\<rparr>, ScaleApp False # ev, None))
            else (s1, [], None))
      else (self\<lparr>scale_up := 0, cool_down := 0\<rparr>, [], None))"

text \<open>\<open>time.sleep\<close> raises \<open>ValueError\<close> on a negative length.\<close>

definition timer :: "autoscaler \<Rightarrow> event list \<times> exn option" where
  "timer self =
     (if interval self < 0 then ([], Some (ValueError ''sleep length must be non-negative''))
      else ([Sleep (interval self)], None))"

text \<open>
  The body of the \<open>try\<close> in \<open>run\<close>. The scaling mode is the function \<open>scaling_mode\<close>
  from the answers of the collaborators to a direction or an exception; for the memory
  mode it is \<open>ScaleByMemory_scale_direction\<close>. The \<open>continue\<close> ends the body normally.
\<close>

definition run_try :: "(world \<Rightarrow> exn + int) \<Rightarrow> world \<Rightarrow> autoscaler \<Rightarrow> autoscaler \<times> event list \<times> exn option" where
  "run_try scaling_mode w self =
     (case agent_stats_reset w of
        Some e \<Rightarrow> (self, [], Some e)
      | None \<Rightarrow>
          (case app_exists w of
             Inl e \<Rightarrow> (self, [], Some e)
           | Inr found \<Rightarrow>
               if \<not> found then (self, [], None)
               else
                 (case scaling_mode w of
                    Inl e \<Rightarrow> (self, [], Some e)
                  | Inr direction \<Rightarrow> autoscale w self direction)))"

text \<open>
  One iteration of the \<open>while True\<close>: the body, then \<open>except Exception\<close>, which ends an
  \<open>Exception\<close> and lets any other exception pass, then \<open>finally\<close>, which runs
  \<open>timer\<close> in every case; an exception of \<open>timer\<close> replaces a pending one. The
  exception in the result is the one that leaves the loop.
\<close>

definition run_cycle :: "(world \<Rightarrow> exn + int) \<Rightarrow> world \<Rightarrow> autoscaler \<Rightarrow> autoscaler \<times> event list \<times> exn option" where
  "run_cycle scaling_mode w self =
     (case run_try scaling_mode w self of
        (s1, ev, r) \<Rightarrow>
          (case timer s1 of
             (ev2, Some e2) \<Rightarrow> (s1, ev @ ev2, Some e2)
           | (ev2, None) \<Rightarrow>
               (case r of
                  None \<Rightarrow> (s1, ev @ ev2, None)
                | Some e \<Rightarrow> (s1, ev @ ev2, if is_Exception e then None else Some e))))"

text \<open>
  The loop never ends by itself. It is run here on the answers of the collaborators for
  finitely many iterations, one \<open>world\<close> each; it stops before the list is used up only
  when an exception leaves an iteration. The result keeps the events of each iteration
  apart.
\<close>

fun run_cycles :: "(world \<Rightarrow> exn + int) \<Rightarrow> world list \<Rightarrow> autoscaler \<Rightarrow> autoscaler \<times> event list list \<times> exn option" where
  "run_cycles scaling_mode [] self = (self, [], None)"
| "run_cycles scaling_mode (w # ws) self =
     (case run_cycle scaling_mode w self of
        (s1, ev, Some e) \<Rightarrow> (s1, [ev], Some e)
      | (s1, ev, None) \<Rightarrow>
          (case run_cycles scaling_mode ws s1 of
             (s2, evs, r) \<Rightarrow> (s2, ev # evs, r)))"

definition run :: "(world \<Rightarrow> exn + int) \<Rightarrow> world list \<Rightarrow> autoscaler \<Rightarrow> autoscaler \<times> event list list \<times> exn option" where
  "run scaling_mode ws self = run_cycles scaling_mode ws (self\<lparr>cool_down := 0, scale_up := 0\<rparr>)"

text \<open>
  A sequence of calls of \<open>autoscale\<close>, one per cycle, each with the answers of the
  collaborators in that cycle and the direction of that cycle. An exception that leaves a
  call is dropped, as the loop of \<open>run\<close> drops it, and the next call follows.
\<close>

fun autoscale_seq :: "autoscaler \<Rightarrow> (world \<times> int) list \<Rightarrow> autoscaler \<times> event list list" where
  "autoscale_seq self [] = (self, [])"
| "autoscale_seq self ((w, direction) # rest) =
     (case autoscale w self direction of
        (s1, ev, _) \<Rightarrow>
          (case autoscale_seq s1 rest of
             (s2, evs) \<Rightarrow> (s2, ev # evs)))"

fun is_ScaleApp :: "event \<Rightarrow> bool" where
  "is_ScaleApp (ScaleApp _) = True"
| "is_ScaleApp _ = False"

definition hysteresis_inv :: "autoscaler \<Rightarrow> bool" where
  "hysteresis_inv self =
     (0 \<le> scale_up self \<and> 0 \<le> cool_down self \<and> (scale_up self = 0 \<or> cool_down self = 0))"

section \<open>Example inputs\<close>

text \<open>
  Answers of the collaborators for the examples below: task \<open>A\<close> uses 50 of 100 bytes,
  task \<open>B\<close> reports a limit of 0, every other task has no statistics yet.
\<close>

abbreviation example_stats :: "string \<Rightarrow> string \<Rightarrow> exn + task_stats option" where
  "example_stats \<equiv> (\<lambda>agent task.
      if task = ''A'' then Inr (Some \<lparr>mem_rss_bytes = 50, mem_limit_bytes = 100\<rparr>)
      else if task = ''B'' then Inr (Some \<lparr>mem_rss_bytes = 0, mem_limit_bytes = 0\<rparr>)
      else Inr None)"

abbreviation example_world :: "(string \<times> string) list \<Rightarrow> world" where
  "example_world tasks \<equiv>
     \<lparr>app_name = ''/app'', agent_stats_reset = None, app_exists = Inr True,
      get_app_details = Inr tasks, get_task_stats = example_stats,
      get_app_instances = Inr 5, dcos_rest = (\<lambda>_. None)\<rparr>"

text \<open>
  An autoscaler that fires after three cycles and doubles or halves between 3 and 15
  instances, and collaborators whose PUT raises.
\<close>

abbreviation example_autoscaler :: autoscaler where
  "example_autoscaler \<equiv>
     \<lparr>scale_up = 0, cool_down = 0, autoscale_multiplier = Fin 2, min_instances = 3,
      max_instances = 15, cool_down_factor = 3, scale_up_factor = 3, interval = 20\<rparr>"

abbreviation failing_put_world :: world where
  "failing_put_world \<equiv> (example_world [])\<lparr>dcos_rest := (\<lambda>_. Some (OtherException ''PUT failed''))\<rparr>"

section \<open>Thresholds of a mode\<close>

lemma py_lt_irrefl: "\<not> py_lt a a"
  by (cases a) simp_all

lemma py_le_not_gt: "py_le a b \<Longrightarrow> py_lt v a \<Longrightarrow> \<not> py_lt b v"
  by (cases a; cases b; cases v) (auto simp: py_le_def py_eq_def)

text \<open>
  C3. For a mode whose thresholds satisfy \<open>min_range <= max_range\<close> and for every
  sample \<open>v\<close> (NaN and the infinities included), \<open>scale_direction\<close> returns 1 exactly
  when \<open>v > max_range\<close>, -1 exactly when \<open>v < min_range\<close>, and 0 exactly when neither
  holds; at \<open>v = min_range\<close> and at \<open>v = max_range\<close> it returns 0.
\<close>

theorem scale_direction_trichotomy:
  assumes "py_le (min_range self) (max_range self)"
  shows "(AbstractMode_scale_direction self v = 1 \<longleftrightarrow> py_gt v (max_range self))
       \<and> (AbstractMode_scale_direction self v = - 1 \<longleftrightarrow> py_lt v (min_range self))
       \<and> (AbstractMode_scale_direction self v = 0 \<longleftrightarrow>
            \<not> py_gt v (max_range self) \<and> \<not> py_lt v (min_range self))
       \<and> AbstractMode_scale_direction self (min_range self) = 0
       \<and> AbstractMode_scale_direction self (max_range self) = 0"
proof -
  have excl: "py_lt v (min_range self) \<Longrightarrow> \<not> py_gt v (max_range self)"
    using py_le_not_gt [OF assms] by (simp add: py_gt_def)
  have lo: "\<not> py_gt (min_range self) (max_range self)"
    using assms by (cases "min_range self"; cases "max_range self")
      (auto simp: py_gt_def py_le_def py_eq_def)
  show ?thesis
    using excl lo by (auto simp: AbstractMode_scale_direction_def py_lt_irrefl py_gt_def)
qed

theorem scale_direction_trichotomy_witness:
  "py_le (Fin 20) (Fin 80)
   \<and> AbstractMode_scale_direction \<lparr>min_range = Fin 20, max_range = Fin 80\<rparr> (Fin 81) = 1
   \<and> AbstractMode_scale_direction \<lparr>min_range = Fin 20, max_range = Fin 80\<rparr> (Fin 20) = 0
   \<and> AbstractMode_scale_direction \<lparr>min_range = Fin 20, max_range = Fin 80\<rparr> (Fin 80) = 0"
proof -
  have h: "py_le (min_range \<lparr>min_range = Fin 20, max_range = Fin 80\<rparr>)
                 (max_range \<lparr>min_range = Fin 20, max_range = Fin 80\<rparr>)"
    by (simp add: py_le_def)
  show ?thesis
    using scale_direction_trichotomy [OF h, of "Fin 81"]
    by (simp add: py_le_def py_gt_def)
qed

text \<open>
  C10. Constructed with \<open>dimension = None\<close>, a mode has \<open>min_range = 0.0\<close> and
  \<open>max_range = 100.0\<close>. When \<open>dimension['min']\<close> is a non-empty list, the mode's
  \<open>min_range\<close> is the first element of the list, whatever the further elements are;
  likewise for \<open>dimension['max']\<close> and \<open>max_range\<close>. When both are non-empty lists the
  constructor succeeds with the two first elements.
\<close>

theorem init_defaults_and_first_element:
  "AbstractMode_init None = Inr \<lparr>min_range = Fin 0, max_range = Fin 100\<rparr>
   \<and> (\<forall>d x xs m. d ''min'' = Some (ListVal (x # xs)) \<and> AbstractMode_init (Some d) = Inr m
         \<longrightarrow> min_range m = x)
   \<and> (\<forall>d y ys m. d ''max'' = Some (ListVal (y # ys)) \<and> AbstractMode_init (Some d) = Inr m
         \<longrightarrow> max_range m = y)
   \<and> (\<forall>d x xs y ys. d ''min'' = Some (ListVal (x # xs)) \<and> d ''max'' = Some (ListVal (y # ys))
         \<longrightarrow> AbstractMode_init (Some d) = Inr \<lparr>min_range = x, max_range = y\<rparr>)"
  by (auto simp: AbstractMode_init_def dimension_bound_def
      split: sum.splits option.splits dimval.splits list.splits)

theorem init_defaults_and_first_element_witness:
  "[''min'' \<mapsto> ListVal [Fin 20, Fin 30], ''max'' \<mapsto> ListVal [Fin 80, Fin 90]] ''min''
     = Some (ListVal [Fin 20, Fin 30])
   \<and> [''min'' \<mapsto> ListVal [Fin 20, Fin 30], ''max'' \<mapsto> ListVal [Fin 80, Fin 90]] ''max''
     = Some (ListVal [Fin 80, Fin 90])
   \<and> AbstractMode_init
       (Some [''min'' \<mapsto> ListVal [Fin 20, Fin 30], ''max'' \<mapsto> ListVal [Fin 80, Fin 90]])
     = Inr \<lparr>min_range = Fin 20, max_range = Fin 80\<rparr>"
  using init_defaults_and_first_element by simp

section \<open>The memory mode\<close>

lemma app_mem_values_all_ok:
  "\<forall>(t, a) \<in> set d. get_mem_usage w t a = Inr (u t a) \<Longrightarrow>
   app_mem_values w d acc = Inr (acc @ map (\<lambda>(t, a). u t a) d)"
  by (induction d arbitrary: acc) auto

lemma app_mem_values_length:
  "app_mem_values w d acc = Inr vs \<Longrightarrow> length vs = length acc + length d"
  by (induction d arbitrary: acc) (auto split: sum.splits)

lemma app_mem_values_Inr_each:
  "app_mem_values w d acc = Inr vs \<Longrightarrow> (t, a) \<in> set d \<Longrightarrow> \<exists>u. get_mem_usage w t a = Inr u"
  by (induction d arbitrary: acc) (auto split: sum.splits)

lemma app_mem_values_Inl_source:
  "app_mem_values w d acc = Inl e \<Longrightarrow> \<exists>(t, a) \<in> set d. get_mem_usage w t a = Inl e"
  by (induction d arbitrary: acc) (auto split: sum.splits)

lemma get_mem_usage_zero_limit:
  "get_task_stats w agent task = Inr (Some st) \<Longrightarrow> mem_limit_bytes st = 0 \<Longrightarrow>
   get_mem_usage w task agent = Inl (ValueError (zero_limit_message task agent))"
  by (simp add: get_mem_usage_def)

lemma get_mem_usage_Inl_cases:
  "get_mem_usage w task agent = Inl e \<Longrightarrow>
   get_task_stats w agent task = Inl e
   \<or> (\<exists>st. get_task_stats w agent task = Inr (Some st) \<and> mem_limit_bytes st = 0
        \<and> e = ValueError (zero_limit_message task agent))"
  by (auto simp: get_mem_usage_def split: sum.splits option.splits if_splits)

lemma get_value_nonempty:
  "get_app_details w = Inr d \<Longrightarrow> d \<noteq> [] \<Longrightarrow>
   get_value w = (case app_mem_values w d [] of Inl e \<Rightarrow> Inl e
                  | Inr vs \<Rightarrow> Inr (sum_list vs / real (length vs)))"
  by (auto simp: get_value_def py_truediv_def split: sum.splits dest: app_mem_values_length)

text \<open>
  C6. For a task whose statistics are present with \<open>mem_limit_bytes = 0\<close>,
  \<open>get_mem_usage\<close> raises the \<open>ValueError\<close> whose message names the task and the
  agent. When such a task is in the task map, \<open>get_value\<close> raises and returns no
  average; when moreover every statistics lookup of the map returns, the exception of
  \<open>get_value\<close> is that \<open>ValueError\<close> for a task of the map with a zero limit.
\<close>

theorem zero_limit_is_an_error:
  "(get_task_stats w agent task = Inr (Some st) \<and> mem_limit_bytes st = 0 \<longrightarrow>
      get_mem_usage w task agent
        = Inl (ValueError (''mem_limit_bytes for task '' @ task @ '' agent '' @ agent @ '' is 0'')))
   \<and> (get_app_details w = Inr d \<and> (task, agent) \<in> set d
        \<and> get_task_stats w agent task = Inr (Some st) \<and> mem_limit_bytes st = 0 \<longrightarrow>
        (\<exists>e. get_value w = Inl e))
   \<and> (get_app_details w = Inr d \<and> (task, agent) \<in> set d
        \<and> get_task_stats w agent task = Inr (Some st) \<and> mem_limit_bytes st = 0
        \<and> (\<forall>(t, a) \<in> set d. \<exists>r. get_task_stats w a t = Inr r) \<longrightarrow>
        (\<exists>(t, a) \<in> set d. \<exists>st'. get_task_stats w a t = Inr (Some st') \<and> mem_limit_bytes st' = 0
           \<and> get_value w
               = Inl (ValueError (''mem_limit_bytes for task '' @ t @ '' agent '' @ a @ '' is 0''))))"
proof (intro conjI impI)
  assume "get_task_stats w agent task = Inr (Some st) \<and> mem_limit_bytes st = 0"
  then show "get_mem_usage w task agent
        = Inl (ValueError (''mem_limit_bytes for task '' @ task @ '' agent '' @ agent @ '' is 0''))"
    using get_mem_usage_zero_limit [of w agent task st] by (simp add: zero_limit_message_def)
next
  assume a: "get_app_details w = Inr d \<and> (task, agent) \<in> set d
        \<and> get_task_stats w agent task = Inr (Some st) \<and> mem_limit_bytes st = 0"
  then have bad: "get_mem_usage w task agent = Inl (ValueError (zero_limit_message task agent))"
    by (simp add: get_mem_usage_zero_limit)
  from a have ne: "d \<noteq> []" by auto
  obtain e where "app_mem_values w d [] = Inl e"
    using app_mem_values_Inr_each [of w d "[]" _ task agent] a bad
    by (cases "app_mem_values w d []") auto
  then show "\<exists>e. get_value w = Inl e"
    using a ne by (simp add: get_value_nonempty)
next
  assume a: "get_app_details w = Inr d \<and> (task, agent) \<in> set d
        \<and> get_task_stats w agent task = Inr (Some st) \<and> mem_limit_bytes st = 0
        \<and> (\<forall>(t, a) \<in> set d. \<exists>r. get_task_stats w a t = Inr r)"
  then have bad: "get_mem_usage w task agent = Inl (ValueError (zero_limit_message task agent))"
    by (simp add: get_mem_usage_zero_limit)
  from a have ne: "d \<noteq> []" by auto
  obtain e where e: "app_mem_values w d [] = Inl e"
    using app_mem_values_Inr_each [of w d "[]" _ task agent] a bad
    by (cases "app_mem_values w d []") auto
  then have gv: "get_value w = Inl e"
    using a ne by (simp add: get_value_nonempty)
  from app_mem_values_Inl_source [OF e]
  obtain t g where tg: "(t, g) \<in> set d" "get_mem_usage w t g = Inl e" by auto
  from a tg(1) obtain r where "get_task_stats w g t = Inr r" by auto
  with get_mem_usage_Inl_cases [OF tg(2)]
  obtain st' where "get_task_stats w g t = Inr (Some st')" "mem_limit_bytes st' = 0"
      "e = ValueError (zero_limit_message t g)" by auto
  with tg(1) gv show "\<exists>(t, a) \<in> set d. \<exists>st'. get_task_stats w a t = Inr (Some st') \<and> mem_limit_bytes st' = 0
           \<and> get_value w
               = Inl (ValueError (''mem_limit_bytes for task '' @ t @ '' agent '' @ a @ '' is 0''))"
    by (auto simp: zero_limit_message_def)
qed

theorem zero_limit_is_an_error_witness:
  "get_app_details (example_world [(''A'', ''a1''), (''B'', ''a2'')]) = Inr [(''A'', ''a1''), (''B'', ''a2'')]
   \<and> (''B'', ''a2'') \<in> set [(''A'', ''a1''), (''B'', ''a2'')]
   \<and> get_task_stats (example_world [(''A'', ''a1''), (''B'', ''a2'')]) ''a2'' ''B''
        = Inr (Some \<lparr>mem_rss_bytes = 0, mem_limit_bytes = 0\<rparr>)
   \<and> get_mem_usage (example_world [(''A'', ''a1''), (''B'', ''a2'')]) ''B'' ''a2''
        = Inl (ValueError ''mem_limit_bytes for task B agent a2 is 0'')
   \<and> get_value (example_world [(''A'', ''a1''), (''B'', ''a2'')])
        = Inl (ValueError ''mem_limit_bytes for task B agent a2 is 0'')"
  using zero_limit_is_an_error [of "example_world [(''A'', ''a1''), (''B'', ''a2'')]" "''a2''" "''B''"
      "\<lparr>mem_rss_bytes = 0, mem_limit_bytes = 0\<rparr>" "[(''A'', ''a1''), (''B'', ''a2'')]"]
  by simp

text \<open>
  C8. With an empty task map \<open>get_value\<close> raises \<open>ValueError\<close> before the loop and
  the average. When the average is reached, the list of values is as long as the
  non-empty task map, so the divisor is positive and the division returns. Unless a
  collaborator raises \<open>ZeroDivisionError\<close> itself, \<open>get_value\<close> never raises it.
\<close>

theorem empty_task_map_no_division:
  "(get_app_details w = Inr [] \<longrightarrow>
      get_value w = Inl (ValueError (''No marathon app task data found for app '' @ app_name w)))
   \<and> (get_app_details w = Inr d \<and> d \<noteq> [] \<and> app_mem_values w d [] = Inr vs \<longrightarrow>
        0 < length vs \<and> py_truediv (sum_list vs) (real (length vs)) = Inr (sum_list vs / real (length vs))
        \<and> get_value w = Inr (sum_list vs / real (length vs)))
   \<and> (get_app_details w \<noteq> Inl ZeroDivisionError
        \<and> (\<forall>a t. get_task_stats w a t \<noteq> Inl ZeroDivisionError) \<longrightarrow>
        get_value w \<noteq> Inl ZeroDivisionError)"
proof (intro conjI impI)
  assume "get_app_details w = Inr []"
  then show "get_value w = Inl (ValueError (''No marathon app task data found for app '' @ app_name w))"
    by (simp add: get_value_def)
next
  assume a: "get_app_details w = Inr d \<and> d \<noteq> [] \<and> app_mem_values w d [] = Inr vs"
  then have "length vs = length d" using app_mem_values_length [of w d "[]" vs] by simp
  with a show "0 < length vs" by simp
  then show "py_truediv (sum_list vs) (real (length vs)) = Inr (sum_list vs / real (length vs))"
    by (simp add: py_truediv_def)
  from a show "get_value w = Inr (sum_list vs / real (length vs))"
    by (simp add: get_value_nonempty)
next
  assume a: "get_app_details w \<noteq> Inl ZeroDivisionError
        \<and> (\<forall>a t. get_task_stats w a t \<noteq> Inl ZeroDivisionError)"
  show "get_value w \<noteq> Inl ZeroDivisionError"
  proof
    assume z: "get_value w = Inl ZeroDivisionError"
    show False
    proof (cases "get_app_details w")
      case (Inl e)
      with z a show False by (simp add: get_value_def)
    next
      case (Inr d)
      show False
      proof (cases "d = []")
        case True
        with Inr z show False by (simp add: get_value_def)
      next
        case False
        with Inr z have "app_mem_values w d [] = Inl ZeroDivisionError"
          by (simp add: get_value_nonempty split: sum.splits)
        from app_mem_values_Inl_source [OF this]
        obtain t g where "get_mem_usage w t g = Inl ZeroDivisionError" by auto
        from get_mem_usage_Inl_cases [OF this] a show False by auto
      qed
    qed
  qed
qed

theorem empty_task_map_no_division_witness:
  "get_app_details (example_world []) = Inr []
   \<and> get_value (example_world []) = Inl (ValueError ''No marathon app task data found for app /app'')
   \<and> get_value (example_world [(''A'', ''a1''), (''C'', ''a3'')]) = Inr 25
   \<and> get_value (example_world [(''A'', ''a1''), (''C'', ''a3'')]) \<noteq> Inl ZeroDivisionError"
  using empty_task_map_no_division [of "example_world []"]
    empty_task_map_no_division [of "example_world [(''A'', ''a1''), (''C'', ''a3'')]"
      "[(''A'', ''a1''), (''C'', ''a3'')]" "[50, 0]"]
  by (simp add: get_mem_usage_def)

text \<open>
  C9. For a task whose statistics lookup returns \<open>None\<close>, \<open>get_mem_usage\<close> returns 0
  and does not raise. When the task map is not empty and every lookup returns \<open>None\<close>,
  \<open>get_value\<close> returns 0. When every task of a non-empty map has a utilization, the
  result is their sum divided by the number of all tasks, so a task without statistics
  adds 0 to the sum and 1 to the divisor.
\<close>

theorem missing_stats_count_as_zero:
  "(get_task_stats w agent task = Inr None \<longrightarrow> get_mem_usage w task agent = Inr 0)
   \<and> (get_app_details w = Inr d \<and> d \<noteq> [] \<and> (\<forall>(t, a) \<in> set d. get_task_stats w a t = Inr None) \<longrightarrow>
        get_value w = Inr 0)
   \<and> (get_app_details w = Inr d \<and> d \<noteq> [] \<and> (\<forall>(t, a) \<in> set d. get_mem_usage w t a = Inr (u t a)) \<longrightarrow>
        get_value w = Inr (sum_list (map (\<lambda>(t, a). u t a) d) / real (length d)))"
proof (intro conjI impI)
  assume "get_task_stats w agent task = Inr None"
  then show "get_mem_usage w task agent = Inr 0" by (simp add: get_mem_usage_def)
next
  assume a: "get_app_details w = Inr d \<and> d \<noteq> [] \<and> (\<forall>(t, a) \<in> set d. get_task_stats w a t = Inr None)"
  then have "\<forall>(t, a) \<in> set d. get_mem_usage w t a = Inr ((\<lambda>_ _. 0) t a)"
    by (auto simp: get_mem_usage_def)
  from app_mem_values_all_ok [OF this, of "[]"]
  have "app_mem_values w d [] = Inr (map (\<lambda>(t, a). 0) d)" by simp
  moreover have "sum_list (map (\<lambda>(t, a). 0::real) d) = 0"
    by (induction d) auto
  ultimately show "get_value w = Inr 0"
    using a by (simp add: get_value_nonempty)
next
  assume a: "get_app_details w = Inr d \<and> d \<noteq> [] \<and> (\<forall>(t, a) \<in> set d. get_mem_usage w t a = Inr (u t a))"
  then have "app_mem_values w d [] = Inr (map (\<lambda>(t, a). u t a) d)"
    using app_mem_values_all_ok [of d w u "[]"] by simp
  then show "get_value w = Inr (sum_list (map (\<lambda>(t, a). u t a) d) / real (length d))"
    using a by (simp add: get_value_nonempty)
qed

theorem missing_stats_count_as_zero_witness:
  "get_task_stats (example_world [(''C'', ''a3''), (''D'', ''a4'')]) ''a3'' ''C'' = Inr None
   \<and> get_mem_usage (example_world [(''C'', ''a3''), (''D'', ''a4'')]) ''C'' ''a3'' = Inr 0
   \<and> get_value (example_world [(''C'', ''a3''), (''D'', ''a4'')]) = Inr 0
   \<and> get_value (example_world [(''A'', ''a1''), (''C'', ''a3'')]) = Inr 25"
  using missing_stats_count_as_zero [of "example_world [(''C'', ''a3''), (''D'', ''a4'')]" "''a3''" "''C''"
      "[(''C'', ''a3''), (''D'', ''a4'')]"]
    missing_stats_count_as_zero [of "example_world [(''A'', ''a1''), (''C'', ''a3'')]" "''a3''" "''C''"
      "[(''A'', ''a1''), (''C'', ''a3'')]" "\<lambda>t a. if t = ''A'' then 50 else 0"]
  by (simp add: get_mem_usage_def)

section \<open>Properties of the float arithmetic\<close>

lemma bit_length_nonneg: "0 \<le> bit_length n"
  by (induction n rule: bit_length.induct) (subst bit_length.simps, simp)

lemma bit_length_pos: "0 < n \<Longrightarrow> 1 \<le> bit_length n"
  using bit_length_nonneg [of "n div 2"] by (subst bit_length.simps) simp

lemma bit_length_bounds:
  "0 < n \<Longrightarrow> 2 ^ nat (bit_length n - 1) \<le> n \<and> n < 2 ^ nat (bit_length n)"
proof (induction n rule: bit_length.induct)
  case (1 n)
  show ?case
  proof (cases "n div 2 = 0")
    case True
    with "1.prems" have "n = 1" by presburger
    then show ?thesis by (simp add: bit_length.simps)
  next
    case False
    with "1.prems" have pos: "0 < n div 2" by presburger
    let ?k = "bit_length (n div 2)"
    have "\<not> n \<le> 0" using "1.prems" by simp
    from "1.IH" [OF this pos]
    have ih: "2 ^ nat (?k - 1) \<le> n div 2" "n div 2 < 2 ^ nat ?k" by blast+
    have k1: "1 \<le> ?k" by (rule bit_length_pos [OF pos])
    have bl: "bit_length n = 1 + ?k" using "1.prems" by (subst bit_length.simps) simp
    have "nat (1 + ?k - 1) = Suc (nat (?k - 1))" using k1 by simp
    then have e1: "(2::int) ^ nat (1 + ?k - 1) = 2 * 2 ^ nat (?k - 1)" by simp
    have "nat (1 + ?k) = Suc (nat ?k)" using k1 by simp
    then have e2: "(2::int) ^ nat (1 + ?k) = 2 * 2 ^ nat ?k" by simp
    from ih have "2 * 2 ^ nat (?k - 1) \<le> n" "n < 2 * 2 ^ nat ?k" by presburger+
    then show ?thesis by (simp only: bl e1 e2)
  qed
qed

text \<open>The exponent that \<open>binade\<close> computes is the one of the binade the number lies in.\<close>

lemma binade_bounds:
  assumes "0 < x"
  shows "pow2 (binade x) \<le> x \<and> x < pow2 (binade x + 1)"
proof (cases "1 \<le> x")
  case True
  let ?n = "\<lfloor>x\<rfloor>"
  let ?b = "bit_length ?n"
  from True have n: "0 < ?n" by simp
  from bit_length_bounds [OF n] have b: "2 ^ nat (?b - 1) \<le> ?n" "?n < 2 ^ nat ?b" by auto
  have b1: "1 \<le> ?b" by (rule bit_length_pos [OF n])
  have lo: "(2::real) ^ nat (?b - 1) \<le> x"
  proof -
    have "real_of_int (2 ^ nat (?b - 1)) \<le> real_of_int ?n" using b(1) by linarith
    also have "\<dots> \<le> x" by simp
    finally show ?thesis by simp
  qed
  have hi: "x < (2::real) ^ nat ?b"
  proof -
    have "?n + 1 \<le> 2 ^ nat ?b" using b(2) by linarith
    then have "real_of_int (?n + 1) \<le> real_of_int (2 ^ nat ?b)" by linarith
    then have "real_of_int ?n + 1 \<le> 2 ^ nat ?b" by simp
    moreover have "x < real_of_int ?n + 1" by linarith
    ultimately show ?thesis by linarith
  qed
  show ?thesis using True b1 lo hi by (simp add: binade_def pow2_def)
next
  case False
  let ?y = "1 / x"
  let ?m = "\<lceil>?y\<rceil> - 1"
  let ?b = "bit_length ?m"
  from False assms have y1: "1 < ?y" by simp
  then have m: "0 < ?m" by linarith
  from bit_length_bounds [OF m] have b: "2 ^ nat (?b - 1) \<le> ?m" "?m < 2 ^ nat ?b" by auto
  have b1: "1 \<le> ?b" by (rule bit_length_pos [OF m])
  have ym: "real_of_int ?m < ?y" by linarith
  have ymu: "?y \<le> real_of_int (?m + 1)" by linarith
  have pw: "real_of_int ((2::int) ^ k) = 2 ^ k" for k by simp
  have "?m + 1 \<le> 2 ^ nat ?b" using b(2) by linarith
  then have "real_of_int (?m + 1) \<le> real_of_int (2 ^ nat ?b)" by (simp only: of_int_le_iff)
  with ymu pw [of "nat ?b"] have yhi: "?y \<le> 2 ^ nat ?b" by linarith
  have "real_of_int (2 ^ nat (?b - 1)) \<le> real_of_int ?m" using b(1) by (simp only: of_int_le_iff)
  with ym pw [of "nat (?b - 1)"] have ylo: "2 ^ nat (?b - 1) < ?y" by linarith
  have lo: "1 / 2 ^ nat ?b \<le> x"
    using yhi assms by (simp add: field_simps)
  have hi: "x < 1 / 2 ^ nat (?b - 1)"
    using ylo assms by (simp add: field_simps)
  have bin: "binade x = - ?b" using False by (simp add: binade_def)
  show ?thesis
  proof (cases "?b = 1")
    case True
    with lo hi show ?thesis by (simp add: bin pow2_def)
  next
    case False
    with b1 have "1 < ?b" by simp
    moreover have "nat (?b - 1) = nat (- (1 - ?b))" by simp
    ultimately show ?thesis using lo hi b1 by (simp add: bin pow2_def)
  qed
qed

lemmas float_arith =
  round_double_def binade_def pow2_def round_half_even_def bit_length.simps Let_def
  int_to_float_def int_mul_float_def int_truediv_float_def float_truediv_def

text \<open>
  The float nearest to 1.1 lies above it; ten times that float is halfway between two
  floats and is rounded to 11, fifty times it is rounded upwards, above 55.
\<close>

lemma round_double_examples:
  "round_double (11 / 10) = Fin (4953959590107546 / 2 ^ 52)"
  "int_mul_float 10 (Fin (4953959590107546 / 2 ^ 52)) = Inr (Fin 11)"
  "int_mul_float 50 (Fin (4953959590107546 / 2 ^ 52)) = Inr (Fin (7740561859543041 / 2 ^ 47))"
  "int_truediv_float 11 (Fin (4953959590107546 / 2 ^ 52)) = Inr (Fin 10)"
  "int_mul_float 10 (Fin 2) = Inr (Fin 20)"
  "int_truediv_float 4 (Fin 2) = Inr (Fin 2)"
  "int_to_float (2 ^ 53 + 1) = Inr (Fin (2 ^ 53))"
  "round_double (4953959590107546 / 2 ^ 52) = Fin (4953959590107546 / 2 ^ 52)"
  by (simp_all add: float_arith)

section \<open>Scaling the application\<close>

lemma target_instances_counters:
  "target_instances (self\<lparr>scale_up := a\<rparr>) c is_up = target_instances self c is_up"
  "target_instances (self\<lparr>cool_down := b\<rparr>) c is_up = target_instances self c is_up"
  by (simp_all add: target_instances_def split: sum.splits)

lemma scale_app_counters:
  "scale_app w (self\<lparr>scale_up := a\<rparr>) is_up = scale_app w self is_up"
  "scale_app w (self\<lparr>cool_down := b\<rparr>) is_up = scale_app w self is_up"
  by (cases "get_app_instances w"; simp add: scale_app_def target_instances_counters)+

lemma scale_app_no_ScaleApp: "filter is_ScaleApp (fst (scale_app w self is_up)) = []"
  by (auto simp: scale_app_def split: sum.splits)

text \<open>
  C4. With \<open>c\<close> running instances, when the float product \<open>c * autoscale_multiplier\<close>
  is the finite float \<open>p\<close>, \<open>scale_app(True)\<close> takes the ceiling of \<open>p\<close>, lowered to
  \<open>max_instances\<close> when it is larger; when the float quotient
  \<open>c / autoscale_multiplier\<close> is the finite float \<open>q\<close>, \<open>scale_app(False)\<close> takes the
  floor of \<open>q\<close>, raised to \<open>min_instances\<close> when it is smaller. In both cases the PUT is
  sent if and only if the target differs from \<open>c\<close>. With \<open>c = 10\<close>, multiplier 2.0 and
  maximum 15 the target is 15; with \<open>c = 4\<close>, multiplier 2.0 and minimum 3 it is 3.
\<close>

theorem scale_app_postcondition:
  assumes "get_app_instances w = Inr c"
  shows "(int_mul_float c (autoscale_multiplier self) = Inr (Fin p) \<longrightarrow>
            scale_app w self True =
              (let t = min (max_instances self) \<lceil>p\<rceil>
               in if t \<noteq> c then ([Put t], dcos_rest w t) else ([], None)))
       \<and> (int_truediv_float c (autoscale_multiplier self) = Inr (Fin q) \<longrightarrow>
            scale_app w self False =
              (let t = max (min_instances self) \<lfloor>q\<rfloor>
               in if t \<noteq> c then ([Put t], dcos_rest w t) else ([], None)))"
  using assms by (auto simp: scale_app_def target_instances_def Let_def min_def max_def)

theorem scale_app_postcondition_witness:
  "get_app_instances ((example_world [])\<lparr>get_app_instances := Inr 10\<rparr>) = Inr 10
   \<and> int_mul_float 10 (autoscale_multiplier example_autoscaler) = Inr (Fin 20)
   \<and> scale_app ((example_world [])\<lparr>get_app_instances := Inr 10\<rparr>) example_autoscaler True
        = ([Put 15], None)
   \<and> int_truediv_float 4 (autoscale_multiplier (example_autoscaler\<lparr>max_instances := 100\<rparr>))
        = Inr (Fin 2)
   \<and> scale_app ((example_world [])\<lparr>get_app_instances := Inr 4\<rparr>)
        (example_autoscaler\<lparr>max_instances := 100\<rparr>) False
        = ([Put 3], None)"
  using scale_app_postcondition [of "(example_world [])\<lparr>get_app_instances := Inr 10\<rparr>" 10
      example_autoscaler 20]
    scale_app_postcondition [of "(example_world [])\<lparr>get_app_instances := Inr 4\<rparr>" 4
      "example_autoscaler\<lparr>max_instances := 100\<rparr>" _ 2]
  by (simp add: float_arith)

text \<open>
  The same with a multiplier of 1.1, where the rounding of the product and of the
  quotient decides the target: 10 instances go up to 11, 50 to 56, and 11 go down to 10.
\<close>

lemma scale_app_rounding_examples:
  "scale_app ((example_world [])\<lparr>get_app_instances := Inr 10\<rparr>)
     (example_autoscaler\<lparr>autoscale_multiplier := Fin (4953959590107546 / 2 ^ 52),
        max_instances := 100\<rparr>) True = ([Put 11], None)"
  "scale_app ((example_world [])\<lparr>get_app_instances := Inr 50\<rparr>)
     (example_autoscaler\<lparr>autoscale_multiplier := Fin (4953959590107546 / 2 ^ 52),
        max_instances := 100\<rparr>) True = ([Put 56], None)"
  "scale_app ((example_world [])\<lparr>get_app_instances := Inr 11\<rparr>)
     (example_autoscaler\<lparr>autoscale_multiplier := Fin (4953959590107546 / 2 ^ 52)\<rparr>) False
     = ([Put 10], None)"
  by (simp_all add: scale_app_def target_instances_def float_arith)

text \<open>
  With an infinite or undefined multiplier, or a multiplier of zero on the way down,
  \<open>scale_app\<close> raises and sends no PUT.
\<close>

lemma scale_app_raises:
  "scale_app (example_world []) (example_autoscaler\<lparr>autoscale_multiplier := PosInf\<rparr>) True
     = ([], Some (OverflowError ''cannot convert float infinity to integer''))"
  "scale_app (example_world []) (example_autoscaler\<lparr>autoscale_multiplier := NaN\<rparr>) True
     = ([], Some (ValueError ''cannot convert float NaN to integer''))"
  "scale_app (example_world []) (example_autoscaler\<lparr>autoscale_multiplier := Fin 0\<rparr>) False
     = ([], Some ZeroDivisionError)"
  by (simp_all add: scale_app_def target_instances_def float_arith)

section \<open>Hysteresis\<close>

lemma autoscale_within:
  "direction \<noteq> 1 \<Longrightarrow> direction \<noteq> - 1 \<Longrightarrow>
   autoscale w self direction = (self\<lparr>scale_up := 0, cool_down := 0\<rparr>, [], None)"
  by (simp add: autoscale_def)

lemma autoscale_above_counting:
  "scale_up self + 1 < scale_up_factor self \<Longrightarrow>
   autoscale w self 1 = (self\<lparr>scale_up := scale_up self + 1, cool_down := 0\<rparr>, [], None)"
  by (simp add: autoscale_def Let_def)

lemma autoscale_above_firing:
  "scale_up_factor self \<le> scale_up self + 1 \<Longrightarrow>
   autoscale w self 1 =
     (case scale_app w self True of
        (ev, Some e) \<Rightarrow> (self\<lparr>scale_up := scale_up self + 1, cool_down := 0\<rparr>, ScaleApp True # ev, Some e)
      | (ev, None) \<Rightarrow> (self\<lparr>scale_up := 0, cool_down := 0\<rparr>, ScaleApp True # ev, None))"
  by (simp add: autoscale_def Let_def scale_app_counters split: prod.splits option.splits)

lemma autoscale_seq_append:
  "autoscale_seq self (xs @ ys) =
     (case autoscale_seq self xs of
        (s1, evs) \<Rightarrow> (case autoscale_seq s1 ys of (s2, evs2) \<Rightarrow> (s2, evs @ evs2)))"
  by (induction xs arbitrary: self) (auto split: prod.splits)

lemma autoscale_seq_counting_up:
  "cool_down self = 0 \<Longrightarrow> scale_up self + int (length ws) < scale_up_factor self \<Longrightarrow>
   autoscale_seq self (map (\<lambda>v. (v, 1)) ws)
     = (self\<lparr>scale_up := scale_up self + int (length ws)\<rparr>, replicate (length ws) [])"
proof (induction ws arbitrary: self)
  case Nil
  then show ?case by simp
next
  case (Cons v ws)
  let ?s1 = "self\<lparr>scale_up := scale_up self + 1, cool_down := 0\<rparr>"
  have step: "autoscale v self 1 = (?s1, [], None)"
    using Cons.prems by (intro autoscale_above_counting) simp
  have "autoscale_seq ?s1 (map (\<lambda>v. (v, 1)) ws)
          = (?s1\<lparr>scale_up := scale_up ?s1 + int (length ws)\<rparr>, replicate (length ws) [])"
    using Cons.prems by (intro Cons.IH) simp_all
  with step Cons.prems(1) show ?case by (simp add: add.assoc)
qed

text \<open>
  From counters (0, 0), let \<open>scale_up_factor\<close> be the number of cycles \<open>ws @ [w]\<close> (so
  it is at least 1), all with direction 1. No call but the last has any event; the last
  one calls \<open>scale_app(True)\<close>, so \<open>scale_app\<close> is called exactly once; and when that call
  returns, the object is afterwards as it was at the start, with \<open>scale_up = 0\<close>. When
  the \<open>scale_up_factor - 1\<close> cycles \<open>ws\<close> with direction 1 are followed by one cycle with
  direction 0, no call has any event and both counters are 0 afterwards.
\<close>

lemma firing_when_scale_app_returns:
  assumes "scale_up self = 0" and "cool_down self = 0"
    and "int (length ws) + 1 = scale_up_factor self"
  shows "snd (autoscale_seq self (map (\<lambda>v. (v, 1)) (ws @ [w])))
           = replicate (length ws) [] @ [ScaleApp True # fst (scale_app w self True)]
       \<and> map (filter is_ScaleApp) (snd (autoscale_seq self (map (\<lambda>v. (v, 1)) (ws @ [w]))))
           = replicate (length ws) [] @ [[ScaleApp True]]
       \<and> (snd (scale_app w self True) = None \<longrightarrow>
            fst (autoscale_seq self (map (\<lambda>v. (v, 1)) (ws @ [w]))) = self)
       \<and> autoscale_seq self (map (\<lambda>v. (v, 1)) ws @ [(w, 0)])
           = (self, replicate (length ws + 1) [])"
proof -
  let ?s1 = "self\<lparr>scale_up := int (length ws)\<rparr>"
  have pre: "autoscale_seq self (map (\<lambda>v. (v, 1)) ws) = (?s1, replicate (length ws) [])"
    using autoscale_seq_counting_up [of self ws] assms by simp
  have self0: "self\<lparr>scale_up := 0, cool_down := 0\<rparr> = self"
    using assms by simp
  have s10: "?s1\<lparr>scale_up := 0, cool_down := 0\<rparr> = self"
    using assms by simp
  have fire: "autoscale w ?s1 1 =
     (case scale_app w self True of
        (ev, Some e) \<Rightarrow> (?s1\<lparr>scale_up := scale_up ?s1 + 1, cool_down := 0\<rparr>, ScaleApp True # ev, Some e)
      | (ev, None) \<Rightarrow> (self, ScaleApp True # ev, None))"
    using autoscale_above_firing [of ?s1 w] assms s10
    by (simp add: scale_app_counters split: prod.splits option.splits)
  have last: "autoscale_seq ?s1 [(w, 1)] =
     (fst (autoscale w ?s1 1), [ScaleApp True # fst (scale_app w self True)])"
    by (simp add: fire split: prod.splits option.splits)
  have all: "autoscale_seq self (map (\<lambda>v. (v, 1)) (ws @ [w])) =
     (fst (autoscale w ?s1 1), replicate (length ws) [] @ [ScaleApp True # fst (scale_app w self True)])"
    by (simp add: autoscale_seq_append pre last del: autoscale_seq.simps)
  have c1: "snd (autoscale_seq self (map (\<lambda>v. (v, 1)) (ws @ [w])))
           = replicate (length ws) [] @ [ScaleApp True # fst (scale_app w self True)]"
    by (simp only: all snd_conv)
  have c2: "map (filter is_ScaleApp) (snd (autoscale_seq self (map (\<lambda>v. (v, 1)) (ws @ [w]))))
           = replicate (length ws) [] @ [[ScaleApp True]]"
    by (simp only: c1) (simp add: scale_app_no_ScaleApp)
  have c3: "snd (scale_app w self True) = None \<longrightarrow>
            fst (autoscale_seq self (map (\<lambda>v. (v, 1)) (ws @ [w]))) = self"
    by (simp only: all fst_conv) (simp add: fire split: prod.splits option.splits)
  have c4: "autoscale_seq self (map (\<lambda>v. (v, 1)) ws @ [(w, 0)])
           = (self, replicate (length ws + 1) [])"
  proof -
    have w0: "autoscale w ?s1 0 = (self, [], None)"
      using autoscale_within [of 0 w ?s1] s10 by simp
    have l0: "autoscale_seq ?s1 [(w, 0)] = (self, [[]])"
      by (simp add: w0)
    show ?thesis
      by (simp add: autoscale_seq_append pre l0 replicate_append_same del: autoscale_seq.simps)
  qed
  from c1 c2 c3 c4 show ?thesis by blast
qed

text \<open>
  C1. Property: from counters (0, 0), \<open>scale_up_factor\<close> cycles with direction 1 call
  \<open>scale_app(True)\<close> once, on the last cycle, and leave \<open>scale_up = 0\<close>. The code calls
  \<open>scale_app(True)\<close> once, on the last cycle, but leaves \<open>scale_up = 0\<close> only when the
  call returns. Here \<open>scale_up_factor\<close> and \<open>cool_down_factor\<close> are 3, the counters start
  at (0, 0), and the PUT of the third cycle raises: \<open>scale_up\<close> is 3 afterwards, not 0,
  and a fourth cycle with direction 1 calls \<open>scale_app(True)\<close> again.
\<close>

theorem firing_with_failed_put_keeps_scale_up:
  "scale_up example_autoscaler = 0 \<and> cool_down example_autoscaler = 0
   \<and> 1 \<le> scale_up_factor example_autoscaler \<and> 1 \<le> cool_down_factor example_autoscaler
   \<and> autoscale_seq example_autoscaler
        [(example_world [], 1), (example_world [], 1), (failing_put_world, 1)]
       = (example_autoscaler\<lparr>scale_up := 3\<rparr>, [[], [], [ScaleApp True, Put 10]])
   \<and> scale_up (fst (autoscale_seq example_autoscaler
        [(example_world [], 1), (example_world [], 1), (failing_put_world, 1)])) \<noteq> 0
   \<and> autoscale_seq example_autoscaler
        [(example_world [], 1), (example_world [], 1), (failing_put_world, 1),
         (example_world [], 1)]
       = (example_autoscaler,
          [[], [], [ScaleApp True, Put 10], [ScaleApp True, Put 10]])"
  by (simp add: autoscale_def scale_app_def target_instances_def float_arith)

lemma autoscale_inv:
  "hysteresis_inv self \<Longrightarrow> hysteresis_inv (fst (autoscale w self direction))"
  by (auto simp: autoscale_def hysteresis_inv_def Let_def split: prod.splits option.splits)

lemma autoscale_resets:
  "(direction = 1 \<longrightarrow> cool_down (fst (autoscale w self direction)) = 0)
   \<and> (direction = - 1 \<longrightarrow> scale_up (fst (autoscale w self direction)) = 0)
   \<and> (direction = 0 \<longrightarrow> scale_up (fst (autoscale w self direction)) = 0
         \<and> cool_down (fst (autoscale w self direction)) = 0)"
  by (auto simp: autoscale_def Let_def split: prod.splits option.splits)

lemma autoscale_seq_inv:
  "hysteresis_inv self \<Longrightarrow> hysteresis_inv (fst (autoscale_seq self cycles))"
proof (induction cycles arbitrary: self)
  case Nil
  then show ?case by simp
next
  case (Cons c cycles)
  obtain w d where c: "c = (w, d)" by (cases c)
  obtain s1 ev r where a: "autoscale w self d = (s1, ev, r)" by (cases "autoscale w self d")
  have "hysteresis_inv s1" using autoscale_inv [OF Cons.prems, of w d] a by simp
  from Cons.IH [OF this] show ?case
    by (auto simp: c a split: prod.splits)
qed

lemma run_try_inv:
  "hysteresis_inv self \<Longrightarrow> hysteresis_inv (fst (run_try scaling_mode w self))"
  by (auto simp: run_try_def autoscale_inv split: option.splits sum.splits)

lemma run_cycle_inv:
  "hysteresis_inv self \<Longrightarrow> hysteresis_inv (fst (run_cycle scaling_mode w self))"
  using run_try_inv [of self scaling_mode w]
  by (auto simp: run_cycle_def split: prod.splits option.splits)

lemma run_cycles_inv:
  "hysteresis_inv self \<Longrightarrow> hysteresis_inv (fst (run_cycles scaling_mode ws self))"
proof (induction ws arbitrary: self)
  case Nil
  then show ?case by simp
next
  case (Cons w ws)
  obtain s1 ev r where c: "run_cycle scaling_mode w self = (s1, ev, r)"
    by (cases "run_cycle scaling_mode w self")
  have s1: "hysteresis_inv s1" using run_cycle_inv [OF Cons.prems, of scaling_mode w] c by simp
  show ?case
  proof (cases r)
    case None
    with c Cons.IH [OF s1] show ?thesis by (auto split: prod.splits)
  next
    case (Some e)
    with c s1 show ?thesis by simp
  qed
qed

text \<open>
  C2. After \<open>run\<close> has set both counters to 0 the invariant holds: both counters are
  non-negative and at most one of them is not 0. Every call of \<open>autoscale\<close> keeps it,
  whatever the direction and whether or not \<open>scale_app\<close> raises. A call with direction 1
  leaves \<open>cool_down = 0\<close>, one with direction -1 leaves \<open>scale_up = 0\<close>, one with
  direction 0 leaves both 0. So the invariant holds after every sequence of calls from
  (0, 0) and after every number of iterations of \<open>run\<close>.
\<close>

theorem hysteresis_invariant:
  "hysteresis_inv (self\<lparr>cool_down := 0, scale_up := 0\<rparr>)
   \<and> (hysteresis_inv self \<longrightarrow> hysteresis_inv (fst (autoscale w self direction)))
   \<and> (direction = 1 \<longrightarrow> cool_down (fst (autoscale w self direction)) = 0)
   \<and> (direction = - 1 \<longrightarrow> scale_up (fst (autoscale w self direction)) = 0)
   \<and> (direction = 0 \<longrightarrow> scale_up (fst (autoscale w self direction)) = 0
         \<and> cool_down (fst (autoscale w self direction)) = 0)
   \<and> (scale_up self = 0 \<and> cool_down self = 0 \<longrightarrow>
        hysteresis_inv (fst (autoscale_seq self cycles)))
   \<and> hysteresis_inv (fst (run scaling_mode ws self))"
proof -
  have i0: "hysteresis_inv (self\<lparr>cool_down := 0, scale_up := 0\<rparr>)"
    by (simp add: hysteresis_inv_def)
  have i1: "scale_up self = 0 \<and> cool_down self = 0 \<longrightarrow> hysteresis_inv self"
    by (simp add: hysteresis_inv_def)
  have r: "hysteresis_inv (fst (run scaling_mode ws self))"
    unfolding run_def by (rule run_cycles_inv [OF i0])
  show ?thesis
    using i0 i1 r autoscale_inv [of self w direction] autoscale_resets [of direction w self]
      autoscale_seq_inv [of self cycles]
    by blast
qed

theorem hysteresis_invariant_witness:
  "hysteresis_inv example_autoscaler
   \<and> hysteresis_inv (fst (autoscale (example_world []) example_autoscaler 1))
   \<and> cool_down (fst (autoscale (example_world []) example_autoscaler 1)) = 0
   \<and> hysteresis_inv (fst (autoscale_seq example_autoscaler
        [(example_world [], 1), (example_world [], - 1), (example_world [], 0)]))"
  using hysteresis_invariant [of example_autoscaler "example_world []" 1
      "[(example_world [], 1), (example_world [], - 1), (example_world [], 0)]"]
  by (simp add: hysteresis_inv_def)

text \<open>
  C5. Property: the counter that fired is 0 before the next cycle, also when
  \<open>scale_app\<close> raises. The code does not have it. Here the third cycle above the
  threshold fires and the PUT raises:
  \<open>autoscale\<close> ends with the exception and \<open>scale_up = 3\<close>, the loop goes on with that
  counter, and the next cycle above the threshold fires again at once, with
  \<open>scale_up = 4\<close>. The same happens to \<open>cool_down\<close> when the division by a multiplier
  of 0 raises inside \<open>scale_app\<close>.
\<close>

theorem failed_actuation_keeps_streak:
  "autoscale failing_put_world (example_autoscaler\<lparr>scale_up := 2\<rparr>) 1
     = (example_autoscaler\<lparr>scale_up := 3\<rparr>, [ScaleApp True, Put 10],
        Some (OtherException ''PUT failed''))
   \<and> run_cycles (\<lambda>w. Inr 1) [failing_put_world, failing_put_world]
        (example_autoscaler\<lparr>scale_up := 2\<rparr>)
     = (example_autoscaler\<lparr>scale_up := 4\<rparr>,
        [[ScaleApp True, Put 10, Sleep 20], [ScaleApp True, Put 10, Sleep 20]], None)
   \<and> autoscale (example_world [])
        (example_autoscaler\<lparr>autoscale_multiplier := Fin 0, cool_down := 2\<rparr>) (- 1)
     = (example_autoscaler\<lparr>autoscale_multiplier := Fin 0, cool_down := 3\<rparr>, [ScaleApp False],
        Some ZeroDivisionError)"
  by (simp add: autoscale_def scale_app_def target_instances_def Let_def
      run_cycle_def run_try_def timer_def float_arith)

section \<open>The control loop\<close>

text \<open>
  C7. In an iteration in which \<open>agent_stats.reset\<close> has returned and either the
  application does not exist or the scaling mode raises an \<open>Exception\<close> (a
  \<open>ValueError\<close> of the memory mode is one), \<open>autoscale\<close> is not called: the object is
  unchanged, the only event is the sleep for the interval, which is not negative, no
  PUT is sent, no exception leaves the iteration, and the loop goes on with the next
  iteration from the unchanged object.
\<close>

theorem skipped_cycle:
  assumes "0 \<le> interval self" and "agent_stats_reset w = None"
    and "app_exists w = Inr False
         \<or> (app_exists w = Inr True \<and> scaling_mode w = Inl e \<and> is_Exception e)"
  shows "run_try scaling_mode w self = (self, [], if app_exists w = Inr False then None else Some e)
       \<and> run_cycle scaling_mode w self = (self, [Sleep (interval self)], None)
       \<and> run_cycles scaling_mode (w # ws) self =
           (case run_cycles scaling_mode ws self of
              (s2, evs, r) \<Rightarrow> (s2, [Sleep (interval self)] # evs, r))"
proof -
  have t: "run_try scaling_mode w self = (self, [], if app_exists w = Inr False then None else Some e)"
    using assms by (auto simp: run_try_def)
  have c: "run_cycle scaling_mode w self = (self, [Sleep (interval self)], None)"
    using assms by (auto simp: run_cycle_def t timer_def)
  show ?thesis
    using t c by simp
qed

theorem skipped_cycle_witness:
  "0 \<le> interval example_autoscaler \<and> agent_stats_reset (example_world []) = None
   \<and> app_exists (example_world []) = Inr True
   \<and> ScaleByMemory_scale_direction \<lparr>min_range = Fin 20, max_range = Fin 80\<rparr> (example_world [])
       = Inl (ValueError ''No marathon app task data found for app /app'')
   \<and> run_cycle (ScaleByMemory_scale_direction \<lparr>min_range = Fin 20, max_range = Fin 80\<rparr>)
       (example_world []) (example_autoscaler\<lparr>scale_up := 2\<rparr>)
       = (example_autoscaler\<lparr>scale_up := 2\<rparr>, [Sleep 20], None)
   \<and> run_cycle (ScaleByMemory_scale_direction \<lparr>min_range = Fin 20, max_range = Fin 80\<rparr>)
       ((example_world [(''A'', ''a1'')])\<lparr>app_exists := Inr False\<rparr>) (example_autoscaler\<lparr>scale_up := 2\<rparr>)
       = (example_autoscaler\<lparr>scale_up := 2\<rparr>, [Sleep 20], None)"
  using skipped_cycle [of "example_autoscaler\<lparr>scale_up := 2\<rparr>" "example_world []"
      "ScaleByMemory_scale_direction \<lparr>min_range = Fin 20, max_range = Fin 80\<rparr>"
      "ValueError ''No marathon app task data found for app /app''"]
    skipped_cycle [of "example_autoscaler\<lparr>scale_up := 2\<rparr>"
      "(example_world [(''A'', ''a1'')])\<lparr>app_exists := Inr False\<rparr>"
      "ScaleByMemory_scale_direction \<lparr>min_range = Fin 20, max_range = Fin 80\<rparr>"]
  by (simp add: ScaleByMemory_scale_direction_def get_value_def)

end
